theory Spec2Isabelle
  imports Complex_Main "HOL-Library.Sublist" "HOL-Library.Multiset"
begin

section \<open>JavaScript values of the stock simulator\<close>

text \<open>
  The model follows \<^verbatim>\<open>stock_sim/services/stockDataService.js\<close>, the four provider
  services it requires (Finnhub, Yahoo Finance, Polygon, Alpha Vantage) and the socket
  handlers of the server.

  Conventions of the embedding:
  \<^item> a JavaScript number that holds a price is a \<open>rat\<close>; counts, day numbers and
    millisecond time values are \<open>int\<close>;
  \<^item> a \<^verbatim>\<open>Date\<close> object is its time value in milliseconds since the epoch, \<open>None\<close>
    being the Invalid Date (time value NaN); the server's local time zone is UTC;
  \<^item> a date string \<^verbatim>\<open>'YYYY-MM-DD'\<close> (the result of
    \<^verbatim>\<open>toISOString().split('T')[0]\<close>) is represented by its day number since
    1970-01-01, and \<^verbatim>\<open>new Date(d.date)\<close> is that day's midnight;
  \<^item> a thrown value is a \<open>js_error\<close>; a function that can throw returns
    \<open>js_error + 'a\<close>;
  \<^item> an empty string stands for a missing (falsy) string field.
\<close>

datatype js_error = Error string | TypeError string | RangeError string

type_synonym js_date = "int option"

definition msPerDay :: int where
  "msPerDay = 86400000"

definition TimeClip :: "int \<Rightarrow> js_date" where
  "TimeClip t = (if \<bar>t\<bar> > 8640000000000000 then None else Some t)"

definition Day :: "int \<Rightarrow> int" where
  "Day t = t div msPerDay"

definition TimeWithinDay :: "int \<Rightarrow> int" where
  "TimeWithinDay t = t mod msPerDay"

text \<open>Day number of a civil date (month 1..12) and back, proleptic Gregorian calendar.\<close>

definition days_from_civil :: "int \<Rightarrow> int \<Rightarrow> int \<Rightarrow> int" where
  "days_from_civil y m d =
     (let y' = (if m \<le> 2 then y - 1 else y);
          era = y' div 400;
          yoe = y' - era * 400;
          doy = (153 * (if m > 2 then m - 3 else m + 9) + 2) div 5 + d - 1;
          doe = yoe * 365 + yoe div 4 - yoe div 100 + doy
      in era * 146097 + doe - 719468)"

definition civil_from_days :: "int \<Rightarrow> int \<times> int \<times> int" where
  "civil_from_days z =
     (let z' = z + 719468;
          era = z' div 146097;
          doe = z' - era * 146097;
          yoe = (doe - doe div 1460 + doe div 36524 - doe div 146096) div 365;
          doy = doe - (365 * yoe + yoe div 4 - yoe div 100);
          mp = (5 * doy + 2) div 153;
          d = doy - (153 * mp + 2) div 5 + 1;
          m = (if mp < 10 then mp + 3 else mp - 9)
      in (yoe + era * 400 + (if m \<le> 2 then 1 else 0), m, d))"

definition getFullYear :: "int \<Rightarrow> int" where
  "getFullYear t = fst (civil_from_days (Day t))"

definition getMonth :: "int \<Rightarrow> int" where
  "getMonth t = fst (snd (civil_from_days (Day t))) - 1"

definition getDate :: "int \<Rightarrow> int" where
  "getDate t = snd (snd (civil_from_days (Day t)))"

text \<open>
  \<^verbatim>\<open>MakeDay(year, month, date)\<close> of ECMAScript: the month is 0-based and may lie
  outside 0..11, the date may lie outside the month; both overflow into the
  neighbouring months.
\<close>

definition MakeDay :: "int \<Rightarrow> int \<Rightarrow> int \<Rightarrow> int" where
  "MakeDay y m dt = days_from_civil (y + m div 12) (m mod 12 + 1) 1 + dt - 1"

definition MakeDate :: "int \<Rightarrow> int \<Rightarrow> int" where
  "MakeDate day time = day * msPerDay + time"

definition setMonth :: "int \<Rightarrow> int \<Rightarrow> js_date" where
  "setMonth t m = TimeClip (MakeDate (MakeDay (getFullYear t) m (getDate t)) (TimeWithinDay t))"

definition setFullYear :: "int \<Rightarrow> int \<Rightarrow> js_date" where
  "setFullYear t y = TimeClip (MakeDate (MakeDay y (getMonth t) (getDate t)) (TimeWithinDay t))"

text \<open>
  \<^verbatim>\<open>d.setDate(d.getDate() + k)\<close> moves a date by \<open>k\<close> days and keeps the time of
  day; on the Invalid Date \<^verbatim>\<open>getDate()\<close> is NaN and the date stays invalid.
\<close>

definition addDays :: "js_date \<Rightarrow> int \<Rightarrow> js_date" where
  "addDays d k = (case d of None \<Rightarrow> None | Some t \<Rightarrow> TimeClip (t + k * msPerDay))"

text \<open>\<^verbatim>\<open>getDay()\<close>: 0 is Sunday; 1970-01-01 was a Thursday. NaN on the Invalid Date.\<close>

definition getDay :: "js_date \<Rightarrow> int option" where
  "getDay d = map_option (\<lambda>t. (Day t + 4) mod 7) d"

text \<open>\<^verbatim>\<open>toISOString().split('T')[0]\<close>; \<^verbatim>\<open>toISOString\<close> throws on the Invalid Date.\<close>

definition toISODate :: "js_date \<Rightarrow> js_error + int" where
  "toISODate d = (case d of None \<Rightarrow> Inl (RangeError ''Invalid time value'') | Some t \<Rightarrow> Inr (Day t))"

text \<open>\<^verbatim>\<open>new Date(s)\<close> for a date string \<open>s\<close> given by its day number.\<close>

definition parseDate :: "int \<Rightarrow> js_date" where
  "parseDate s = TimeClip (s * msPerDay)"

text \<open>\<^verbatim>\<open>a >= b\<close> on dates compares the time values; false when either is NaN.\<close>

definition date_ge :: "js_date \<Rightarrow> js_date \<Rightarrow> bool" where
  "date_ge a b = (case (a, b) of (Some x, Some y) \<Rightarrow> x \<ge> y | _ \<Rightarrow> False)"

text \<open>
  \<^verbatim>\<open>parseFloat(x.toFixed(2))\<close> on exact numbers: the nearest multiple of 1/100, a tie
  going to the larger magnitude (\<^verbatim>\<open>toFixed\<close> rounds the absolute value and puts the
  sign back).
\<close>

definition toFixed2 :: "rat \<Rightarrow> rat" where
  "toFixed2 x = (if x < 0 then - (of_int \<lfloor>- x * 100 + 1 / 2\<rfloor> / 100)
                 else of_int \<lfloor>x * 100 + 1 / 2\<rfloor> / 100)"

record candle =
  date :: int
  timestamp :: "int option"
  "open" :: rat
  high :: rat
  low :: rat
  close :: rat
  volume :: int

section \<open>\<^verbatim>\<open>StockDataService.filterByTimeframe\<close>\<close>

definition intraday_timeframes :: "string list" where
  "intraday_timeframes = [''1'', ''5'', ''15'', ''30'', ''60'']"

definition named_timeframes :: "string list" where
  "named_timeframes = [''1D'', ''1W'', ''1M'', ''3M'', ''6M'', ''1Y'']"

text \<open>
  The \<^verbatim>\<open>switch\<close> of \<^verbatim>\<open>filterByTimeframe\<close>: \<open>Some\<close> of the cutoff date for the six
  named timeframes, \<open>None\<close> for the \<^verbatim>\<open>default\<close> branch.
\<close>

definition cutoffDate :: "int \<Rightarrow> string \<Rightarrow> js_date option" where
  "cutoffDate now timeframe =
     (if timeframe = ''1D'' then Some (addDays (Some now) (- 30))
      else if timeframe = ''1W'' then Some (addDays (Some now) (- 7))
      else if timeframe = ''1M'' then Some (setMonth now (getMonth now - 1))
      else if timeframe = ''3M'' then Some (setMonth now (getMonth now - 3))
      else if timeframe = ''6M'' then Some (setMonth now (getMonth now - 6))
      else if timeframe = ''1Y'' then Some (setFullYear now (getFullYear now - 1))
      else None)"

definition filterByTimeframe :: "int \<Rightarrow> candle list \<Rightarrow> string \<Rightarrow> candle list" where
  "filterByTimeframe now data timeframe =
     (if data = [] then data
      else if timeframe \<in> set intraday_timeframes then data
      else (case cutoffDate now timeframe of
              None \<Rightarrow> data
            | Some cutoff \<Rightarrow> filter (\<lambda>d. date_ge (parseDate (date d)) cutoff) data))"

section \<open>Strings\<close>

text \<open>
  \<^verbatim>\<open>toUpperCase\<close>, \<^verbatim>\<open>toLowerCase\<close>, \<^verbatim>\<open>trim\<close> and \<^verbatim>\<open>includes\<close> on strings of
  ASCII characters (the built-in stock list and the provider names are ASCII).
\<close>

definition upper_char :: "char \<Rightarrow> char" where
  "upper_char c = (let n = (of_char c :: nat) in if 97 \<le> n \<and> n \<le> 122 then char_of (n - 32) else c)"

definition lower_char :: "char \<Rightarrow> char" where
  "lower_char c = (let n = (of_char c :: nat) in if 65 \<le> n \<and> n \<le> 90 then char_of (n + 32) else c)"

definition toUpperCase :: "string \<Rightarrow> string" where
  "toUpperCase s = map upper_char s"

definition toLowerCase :: "string \<Rightarrow> string" where
  "toLowerCase s = map lower_char s"

definition is_space :: "char \<Rightarrow> bool" where
  "is_space c = ((of_char c :: nat) \<in> {9, 10, 11, 12, 13, 32})"

definition trim :: "string \<Rightarrow> string" where
  "trim s = rev (dropWhile is_space (rev (dropWhile is_space s)))"

fun str_includes :: "string \<Rightarrow> string \<Rightarrow> bool" where
  "str_includes [] needle = (needle = [])"
| "str_includes (c # cs) needle = (prefix needle (c # cs) \<or> str_includes cs needle)"

section \<open>The services and the world they run in\<close>

datatype service = FinnhubService | YahooFinanceService | PolygonService | AlphaVantageService

datatype operation = GetDataForTimeframe | GetQuote | SearchStocks

text \<open>Of a quote object the aggregator reads \<^verbatim>\<open>price\<close> only.\<close>

record quote =
  price :: rat

record stock =
  symbol :: string
  name :: string
  exchange :: string

text \<open>
  What \<^verbatim>\<open>stockDataService.js\<close> is given: \<^verbatim>\<open>API_CONFIG.provider\<close>; for each required
  service object its \<^verbatim>\<open>isConfigured()\<close> and its three asynchronous methods, whose
  outcome (a returned value or a thrown error) is decided by the upstream network and is
  a function of the number of service calls made before it; and the values that
  successive calls of \<^verbatim>\<open>Math.random()\<close> return.
\<close>

record environment =
  API_CONFIG_provider :: string
  isConfigured :: "service \<Rightarrow> bool"
  getDataForTimeframe :: "nat \<Rightarrow> service \<Rightarrow> string \<Rightarrow> string \<Rightarrow> int \<Rightarrow> js_error + candle list"
  getQuote :: "nat \<Rightarrow> service \<Rightarrow> string \<Rightarrow> js_error + quote option"
  service_searchStocks :: "nat \<Rightarrow> service \<Rightarrow> string \<Rightarrow> js_error + stock list"
  Math_random :: "nat \<Rightarrow> rat"

text \<open>
  The mutable world: the clock read by \<^verbatim>\<open>new Date()\<close> (constant during one call of
  the aggregator), the log of service calls made so far, and the number of
  \<^verbatim>\<open>Math.random()\<close> values drawn so far.
\<close>

record world =
  clock :: int
  calls :: "(service \<times> operation) list"
  draws :: nat

definition invoke :: "world \<Rightarrow> service \<Rightarrow> operation \<Rightarrow> (nat \<Rightarrow> 'a) \<Rightarrow> world \<times> 'a" where
  "invoke w s opn f = (w\<lparr>calls := calls w @ [(s, opn)]\<rparr>, f (length (calls w)))"

text \<open>The \<^verbatim>\<open>isConfigured()\<close> methods of the four services, from their API keys.\<close>

definition FinnhubService_isConfigured :: "string \<Rightarrow> bool" where
  "FinnhubService_isConfigured apiKey =
     (apiKey \<noteq> [] \<and> length apiKey > 0 \<and> apiKey \<noteq> ''your_finnhub_api_key_here'')"

definition YahooFinanceService_isConfigured :: bool where
  "YahooFinanceService_isConfigured = True"

definition PolygonService_isConfigured :: "string \<Rightarrow> bool" where
  "PolygonService_isConfigured apiKey = (apiKey \<noteq> [] \<and> apiKey \<noteq> ''your_polygon_api_key_here'')"

definition AlphaVantageService_isConfigured :: "string \<Rightarrow> bool" where
  "AlphaVantageService_isConfigured apiKey =
     (apiKey \<noteq> [] \<and> apiKey \<noteq> ''your_alpha_vantage_api_key_here'')"

section \<open>\<^verbatim>\<open>generateMockData\<close>\<close>

text \<open>
  The \<^verbatim>\<open>for\<close> loop of \<^verbatim>\<open>generateMockData\<close>, \<open>n\<close> iterations from index \<open>i\<close> on; \<open>k\<close>
  counts the random values drawn. An iteration that is not skipped draws five values
  before \<^verbatim>\<open>toISOString\<close> is evaluated.
\<close>

fun mock_loop ::
  "(nat \<Rightarrow> rat) \<Rightarrow> js_date \<Rightarrow> int \<Rightarrow> nat \<Rightarrow> rat \<Rightarrow> nat \<Rightarrow> (js_error + candle list) \<times> nat" where
  "mock_loop rnd startDate i 0 currentPrice k = (Inr [], k)"
| "mock_loop rnd startDate i (Suc n) currentPrice k =
     (let d = addDays startDate i in
      if getDay d = Some 0 \<or> getDay d = Some 6
      then mock_loop rnd startDate (i + 1) n currentPrice k
      else
        let change = (rnd k - 45 / 100) * 2;
            currentPrice' = max 10 (currentPrice + change);
            open' = currentPrice' + (rnd (k + 1) - 1 / 2) * 2;
            high' = max open' currentPrice' + rnd (k + 2) * 3;
            low' = min open' currentPrice' - rnd (k + 3) * 3;
            close' = currentPrice';
            volume' = \<lfloor>1000000 + rnd (k + 4) * 5000000\<rfloor>
        in (case toISODate d of
              Inl e \<Rightarrow> (Inl e, k + 5)
            | Inr isoDate \<Rightarrow>
                (case mock_loop rnd startDate (i + 1) n currentPrice' (k + 5) of
                   (Inl e, k') \<Rightarrow> (Inl e, k')
                 | (Inr rest, k') \<Rightarrow>
                     (Inr (\<lparr>date = isoDate, timestamp = None, open = toFixed2 open',
                            high = toFixed2 high', low = toFixed2 low',
                            close = toFixed2 close', volume = volume'\<rparr> # rest), k'))))"

text \<open>The first argument (the source's \<^verbatim>\<open>symbol\<close>, here \<open>ticker\<close>) is not read by the function body.\<close>

definition generateMockData ::
  "environment \<Rightarrow> string \<Rightarrow> int \<Rightarrow> world \<Rightarrow> world \<times> (js_error + candle list)" where
  "generateMockData env ticker days w =
     (let basePrice = 100 + Math_random env (draws w) * 50;
          startDate = addDays (Some (clock w)) (- days);
          (res, k) = mock_loop (Math_random env) startDate 0 (nat days) basePrice (draws w + 1)
      in (w\<lparr>draws := k\<rparr>, res))"

section \<open>\<^verbatim>\<open>StockDataService.getStockData\<close>\<close>

text \<open>
  One call of a service's \<^verbatim>\<open>getDataForTimeframe\<close> and the test
  \<^verbatim>\<open>if (data && data.length > 0) return this.filterByTimeframe(data, timeframe)\<close>:
  a thrown error, \<open>Some\<close> of the value to return, or \<open>None\<close> to go on.
\<close>

definition attempt ::
  "environment \<Rightarrow> service \<Rightarrow> string \<Rightarrow> string \<Rightarrow> int \<Rightarrow> world
     \<Rightarrow> world \<times> (js_error + candle list option)" where
  "attempt env s ticker timeframe days w =
     (case invoke w s GetDataForTimeframe (\<lambda>n. getDataForTimeframe env n s ticker timeframe days) of
        (w', Inl e) \<Rightarrow> (w', Inl e)
      | (w', Inr data) \<Rightarrow>
          if data \<noteq> [] then (w', Inr (Some (filterByTimeframe (clock w') data timeframe)))
          else (w', Inr None))"

text \<open>
  The same with the second test of the Finnhub and Yahoo blocks:
  \<^verbatim>\<open>if (filtered && filtered.length > 0) return filtered\<close>.
\<close>

definition attempt_nonempty ::
  "environment \<Rightarrow> service \<Rightarrow> string \<Rightarrow> string \<Rightarrow> int \<Rightarrow> world
     \<Rightarrow> world \<times> (js_error + candle list option)" where
  "attempt_nonempty env s ticker timeframe days w =
     (case invoke w s GetDataForTimeframe (\<lambda>n. getDataForTimeframe env n s ticker timeframe days) of
        (w', Inl e) \<Rightarrow> (w', Inl e)
      | (w', Inr data) \<Rightarrow>
          if data \<noteq> [] then
            (let filtered = filterByTimeframe (clock w') data timeframe
             in if filtered \<noteq> [] then (w', Inr (Some filtered)) else (w', Inr None))
          else (w', Inr None))"

text \<open>
  \<^verbatim>\<open>if (cond) { try { ... } catch (error) { console.log(...) } }\<close>: the block is skipped
  when the condition is false, and an error thrown inside is logged and dropped.
\<close>

definition guarded_try ::
  "bool \<Rightarrow> (world \<Rightarrow> world \<times> (js_error + 'a option)) \<Rightarrow> world \<Rightarrow> world \<times> 'a option" where
  "guarded_try cond body w =
     (if cond then (case body w of (w', Inl e) \<Rightarrow> (w', None) | (w', Inr r) \<Rightarrow> (w', r))
      else (w, None))"

text \<open>A block that may return, followed by the rest of the function.\<close>

definition or_else ::
  "(world \<Rightarrow> world \<times> 'a option) \<Rightarrow> (world \<Rightarrow> world \<times> (js_error + 'a)) \<Rightarrow> world
     \<Rightarrow> world \<times> (js_error + 'a)" where
  "or_else block rest w = (case block w of (w', Some r) \<Rightarrow> (w', Inr r) | (w', None) \<Rightarrow> rest w')"

text \<open>The fallback to mock data, lines 128-138 and again 161-169.\<close>

definition mock_fallback ::
  "environment \<Rightarrow> string \<Rightarrow> string \<Rightarrow> int \<Rightarrow> world \<Rightarrow> world \<times> (js_error + candle list)" where
  "mock_fallback env ticker timeframe days w =
     (case generateMockData env ticker days w of
        (w', Inl e) \<Rightarrow> (w', Inl e)
      | (w', Inr mockData) \<Rightarrow>
          (let filtered = filterByTimeframe (clock w') mockData timeframe
           in if filtered \<noteq> [] then (w', Inr filtered) else (w', Inr mockData)))"

text \<open>The body of the outer \<^verbatim>\<open>try\<close>, lines 48-139.\<close>

definition getStockData_try ::
  "environment \<Rightarrow> string \<Rightarrow> string \<Rightarrow> int \<Rightarrow> world \<Rightarrow> world \<times> (js_error + candle list)" where
  "getStockData_try env ticker timeframe days =
     (let provider = toLowerCase (API_CONFIG_provider env) in
      or_else (guarded_try (isConfigured env FinnhubService)
                 (attempt_nonempty env FinnhubService ticker timeframe days))
     (or_else (guarded_try (isConfigured env YahooFinanceService)
                 (attempt_nonempty env YahooFinanceService ticker timeframe days))
     (or_else (guarded_try (provider = ''polygon'' \<and> isConfigured env PolygonService)
                 (attempt env PolygonService ticker timeframe days))
     (or_else (guarded_try (provider = ''alphavantage'' \<and> isConfigured env AlphaVantageService)
                 (attempt env AlphaVantageService ticker timeframe days))
     (or_else (guarded_try (provider \<noteq> ''alphavantage'' \<and> isConfigured env AlphaVantageService)
                 (attempt env AlphaVantageService ticker timeframe days))
     (or_else (guarded_try (provider \<noteq> ''polygon'' \<and> isConfigured env PolygonService)
                 (attempt env PolygonService ticker timeframe days))
     (mock_fallback env ticker timeframe days)))))))"

text \<open>
  The inner \<^verbatim>\<open>try\<close> of the outer \<^verbatim>\<open>catch\<close>, lines 144-159: the two calls are not
  wrapped one by one, so an error of the first skips the second.
\<close>

definition fallback_providers ::
  "environment \<Rightarrow> string \<Rightarrow> string \<Rightarrow> int \<Rightarrow> world \<Rightarrow> world \<times> (js_error + candle list option)" where
  "fallback_providers env ticker timeframe days w =
     (let provider = toLowerCase (API_CONFIG_provider env) in
      case (if provider = ''polygon'' \<and> isConfigured env AlphaVantageService
            then attempt env AlphaVantageService ticker timeframe days w else (w, Inr None)) of
        (w1, Inl e) \<Rightarrow> (w1, Inl e)
      | (w1, Inr (Some r)) \<Rightarrow> (w1, Inr (Some r))
      | (w1, Inr None) \<Rightarrow>
          (if provider = ''alphavantage'' \<and> isConfigured env PolygonService
           then attempt env PolygonService ticker timeframe days w1 else (w1, Inr None)))"

text \<open>The outer \<^verbatim>\<open>catch\<close>, lines 140-170.\<close>

definition getStockData_catch ::
  "environment \<Rightarrow> string \<Rightarrow> string \<Rightarrow> int \<Rightarrow> js_error \<Rightarrow> world
     \<Rightarrow> world \<times> (js_error + candle list)" where
  "getStockData_catch env ticker timeframe days error =
     or_else (guarded_try True (fallback_providers env ticker timeframe days))
             (mock_fallback env ticker timeframe days)"

definition getStockData ::
  "environment \<Rightarrow> string \<Rightarrow> string \<Rightarrow> int \<Rightarrow> world \<Rightarrow> world \<times> (js_error + candle list)" where
  "getStockData env ticker timeframe days w =
     (case getStockData_try env ticker timeframe days w of
        (w', Inr r) \<Rightarrow> (w', Inr r)
      | (w', Inl error) \<Rightarrow> getStockData_catch env ticker timeframe days error w')"

section \<open>\<^verbatim>\<open>StockDataService.getCurrentPrice\<close>\<close>

text \<open>
  A call of \<^verbatim>\<open>getQuote\<close> followed by \<^verbatim>\<open>if (quote && quote.price) return quote.price\<close>
  (Finnhub, Yahoo): a price of 0 is falsy.
\<close>

definition quote_truthy_price ::
  "environment \<Rightarrow> service \<Rightarrow> string \<Rightarrow> world \<Rightarrow> world \<times> (js_error + rat option option)" where
  "quote_truthy_price env s ticker w =
     (case invoke w s GetQuote (\<lambda>n. getQuote env n s ticker) of
        (w', Inl e) \<Rightarrow> (w', Inl e)
      | (w', Inr None) \<Rightarrow> (w', Inr None)
      | (w', Inr (Some q)) \<Rightarrow> if price q \<noteq> 0 then (w', Inr (Some (Some (price q)))) else (w', Inr None))"

text \<open>\<^verbatim>\<open>if (quote) return quote.price\<close> (Polygon, Alpha Vantage).\<close>

definition quote_price ::
  "environment \<Rightarrow> service \<Rightarrow> string \<Rightarrow> world \<Rightarrow> world \<times> (js_error + rat option option)" where
  "quote_price env s ticker w =
     (case invoke w s GetQuote (\<lambda>n. getQuote env n s ticker) of
        (w', Inl e) \<Rightarrow> (w', Inl e)
      | (w', Inr None) \<Rightarrow> (w', Inr None)
      | (w', Inr (Some q)) \<Rightarrow> (w', Inr (Some (Some (price q)))))"

text \<open>\<^verbatim>\<open>if (cond) { ... }\<close> without a \<^verbatim>\<open>try\<close> of its own: an error leaves the function body.\<close>

definition guarded ::
  "bool \<Rightarrow> (world \<Rightarrow> world \<times> (js_error + 'a option)) \<Rightarrow> world \<Rightarrow> world \<times> (js_error + 'a option)" where
  "guarded cond body w = (if cond then body w else (w, Inr None))"

definition and_then ::
  "(world \<Rightarrow> world \<times> (js_error + 'a option)) \<Rightarrow> (world \<Rightarrow> world \<times> (js_error + 'a))
     \<Rightarrow> world \<Rightarrow> world \<times> (js_error + 'a)" where
  "and_then block rest w =
     (case block w of
        (w', Inl e) \<Rightarrow> (w', Inl e)
      | (w', Inr (Some r)) \<Rightarrow> (w', Inr r)
      | (w', Inr None) \<Rightarrow> rest w')"

text \<open>Lines 253-259: the latest close of \<^verbatim>\<open>getStockData(symbol, '1D', 1)\<close>, or \<^verbatim>\<open>null\<close>.\<close>

definition latest_daily_close ::
  "environment \<Rightarrow> string \<Rightarrow> world \<Rightarrow> world \<times> (js_error + rat option)" where
  "latest_daily_close env ticker w =
     (case getStockData env ticker ''1D'' 1 w of
        (w', Inl e) \<Rightarrow> (w', Inl e)
      | (w', Inr data) \<Rightarrow> if data \<noteq> [] then (w', Inr (Some (close (last data)))) else (w', Inr None))"

definition getCurrentPrice_try ::
  "environment \<Rightarrow> string \<Rightarrow> world \<Rightarrow> world \<times> (js_error + rat option)" where
  "getCurrentPrice_try env ticker =
     (let provider = toLowerCase (API_CONFIG_provider env) in
      and_then (guarded (isConfigured env FinnhubService) (quote_truthy_price env FinnhubService ticker))
     (or_else (guarded_try (isConfigured env YahooFinanceService)
                 (quote_truthy_price env YahooFinanceService ticker))
     (and_then (guarded (provider = ''polygon'' \<and> isConfigured env PolygonService)
                 (quote_price env PolygonService ticker))
     (and_then (guarded (provider = ''alphavantage'' \<and> isConfigured env AlphaVantageService)
                 (quote_price env AlphaVantageService ticker))
     (latest_daily_close env ticker)))))"

text \<open>The \<^verbatim>\<open>catch\<close> of \<^verbatim>\<open>getCurrentPrice\<close> returns \<^verbatim>\<open>null\<close>.\<close>

definition getCurrentPrice ::
  "environment \<Rightarrow> string \<Rightarrow> world \<Rightarrow> world \<times> (js_error + rat option)" where
  "getCurrentPrice env ticker w =
     (case getCurrentPrice_try env ticker w of
        (w', Inr r) \<Rightarrow> (w', Inr r)
      | (w', Inl error) \<Rightarrow> (w', Inr None))"

section \<open>\<^verbatim>\<open>StockDataService.searchStocks\<close>\<close>

definition commonStocks :: "stock list" where
  "commonStocks =
     [\<lparr>symbol = ''AAPL'', name = ''Apple Inc.'', exchange = ''NASDAQ''\<rparr>,
      \<lparr>symbol = ''MSFT'', name = ''Microsoft Corporation'', exchange = ''NASDAQ''\<rparr>,
      \<lparr>symbol = ''GOOGL'', name = ''Alphabet Inc.'', exchange = ''NASDAQ''\<rparr>,
      \<lparr>symbol = ''AMZN'', name = ''Amazon.com Inc.'', exchange = ''NASDAQ''\<rparr>,
      \<lparr>symbol = ''TSLA'', name = ''Tesla Inc.'', exchange = ''NASDAQ''\<rparr>,
      \<lparr>symbol = ''META'', name = ''Meta Platforms Inc.'', exchange = ''NASDAQ''\<rparr>,
      \<lparr>symbol = ''NVDA'', name = ''NVIDIA Corporation'', exchange = ''NASDAQ''\<rparr>]"

text \<open>A call of a service's \<^verbatim>\<open>searchStocks\<close> and \<^verbatim>\<open>if (results && results.length > 0) return results\<close>.\<close>

definition search_attempt ::
  "environment \<Rightarrow> service \<Rightarrow> string \<Rightarrow> world \<Rightarrow> world \<times> (js_error + stock list option)" where
  "search_attempt env s query w =
     (case invoke w s SearchStocks (\<lambda>n. service_searchStocks env n s query) of
        (w', Inl e) \<Rightarrow> (w', Inl e)
      | (w', Inr results) \<Rightarrow> if results \<noteq> [] then (w', Inr (Some results)) else (w', Inr None))"

text \<open>Lines 289-313: the built-in list when neither service is configured, else \<^verbatim>\<open>[]\<close>.\<close>

definition demo_stocks :: "environment \<Rightarrow> string \<Rightarrow> world \<Rightarrow> world \<times> (js_error + stock list)" where
  "demo_stocks env query w =
     (if \<not> isConfigured env FinnhubService \<and> \<not> isConfigured env YahooFinanceService then
        (if query \<noteq> [] \<and> length (trim query) > 0 then
           (let upperQuery = toUpperCase query
            in (w, Inr (filter (\<lambda>stock. str_includes (symbol stock) upperQuery
                                  \<or> str_includes (toUpperCase (name stock)) upperQuery) commonStocks)))
         else (w, Inr commonStocks))
      else (w, Inr []))"

definition searchStocks_try :: "environment \<Rightarrow> string \<Rightarrow> world \<Rightarrow> world \<times> (js_error + stock list)" where
  "searchStocks_try env query =
     and_then (guarded (isConfigured env FinnhubService) (search_attempt env FinnhubService query))
    (or_else (guarded_try (isConfigured env YahooFinanceService)
                (search_attempt env YahooFinanceService query))
    (demo_stocks env query))"

definition searchStocks :: "environment \<Rightarrow> string \<Rightarrow> world \<Rightarrow> world \<times> (js_error + stock list)" where
  "searchStocks env query w =
     (case searchStocks_try env query w of
        (w', Inr r) \<Rightarrow> (w', Inr r)
      | (w', Inl error) \<Rightarrow> (w', Inr []))"


section \<open>The provider services on decoded responses\<close>

text \<open>
  The outcome of \<^verbatim>\<open>axios.get\<close> is an error (the promise is rejected) or the decoded
  \<^verbatim>\<open>response.data\<close>; \<open>None\<close> stands for a body or a field that is missing.

  The body of Finnhub's \<^verbatim>\<open>/stock/candle\<close>: the status \<^verbatim>\<open>s\<close> and the parallel arrays
  \<^verbatim>\<open>t\<close>, \<^verbatim>\<open>o\<close>, \<^verbatim>\<open>h\<close>, \<^verbatim>\<open>l\<close>, \<^verbatim>\<open>c\<close>, \<^verbatim>\<open>v\<close>; a missing array is the empty list.
\<close>

record finnhub_candles =
  fc_s :: string
  fc_t :: "int list option"
  fc_o :: "rat list"
  fc_h :: "rat list"
  fc_l :: "rat list"
  fc_c :: "rat list"
  fc_v :: "int list"

text \<open>
  The \<^verbatim>\<open>for\<close> loop of \<^verbatim>\<open>FinnhubService.getCandles\<close> from index \<open>i\<close> on. Reading
  \<^verbatim>\<open>o[i].toFixed\<close> beyond the end of an array throws a TypeError, \<^verbatim>\<open>toISOString\<close>
  of a time out of range a RangeError; \<^verbatim>\<open>v[i] || 0\<close> is 0 beyond the end.
\<close>

fun getCandles_rows :: "finnhub_candles \<Rightarrow> nat \<Rightarrow> int list \<Rightarrow> js_error + candle list" where
  "getCandles_rows r i [] = Inr []"
| "getCandles_rows r i (ti # ts) =
     (case toISODate (TimeClip (ti * 1000)) of
        Inl e \<Rightarrow> Inl e
      | Inr isoDate \<Rightarrow>
          if i < length (fc_o r) \<and> i < length (fc_h r) \<and> i < length (fc_l r) \<and> i < length (fc_c r)
          then (case getCandles_rows r (i + 1) ts of
                  Inl e \<Rightarrow> Inl e
                | Inr rest \<Rightarrow>
                    Inr (\<lparr>date = isoDate, timestamp = Some (ti * 1000),
                          open = toFixed2 (fc_o r ! i), high = toFixed2 (fc_h r ! i),
                          low = toFixed2 (fc_l r ! i), close = toFixed2 (fc_c r ! i),
                          volume = (if i < length (fc_v r) then fc_v r ! i else 0)\<rparr> # rest))
          else Inl (TypeError ''Cannot read properties of undefined (reading toFixed)''))"

definition FinnhubService_getCandles ::
  "string \<Rightarrow> js_error + finnhub_candles option \<Rightarrow> candle list" where
  "FinnhubService_getCandles apiKey response =
     (if apiKey = [] then []
      else (case response of
              Inl e \<Rightarrow> []
            | Inr None \<Rightarrow> []
            | Inr (Some r) \<Rightarrow>
                (case fc_t r of
                   None \<Rightarrow> []
                 | Some ts \<Rightarrow>
                     if fc_s r = ''ok''
                     then (case getCandles_rows r 0 ts of Inl e \<Rightarrow> [] | Inr data \<Rightarrow> data)
                     else [])))"

text \<open>
  The body of Alpha Vantage's \<^verbatim>\<open>TIME_SERIES_DAILY\<close>: the fields \<^verbatim>\<open>'Error Message'\<close>,
  \<^verbatim>\<open>'Note'\<close> and \<^verbatim>\<open>'Time Series (Daily)'\<close>, the latter as the list of its
  \<^verbatim>\<open>Object.entries\<close> (date key and parsed values).
\<close>

record alpha_values =
  av_open :: rat
  av_high :: rat
  av_low :: rat
  av_close :: rat
  av_volume :: int

record alpha_daily =
  error_message :: string
  rate_note :: string
  time_series :: "(int \<times> alpha_values) list option"

definition daily_candle :: "int \<times> alpha_values \<Rightarrow> candle" where
  "daily_candle entry =
     (case entry of (d, values) \<Rightarrow>
        \<lparr>date = d, timestamp = None, open = av_open values, high = av_high values,
         low = av_low values, close = av_close values, volume = av_volume values\<rparr>)"

text \<open>
  \<^verbatim>\<open>data.sort((a, b) => new Date(a.date) - new Date(b.date))\<close> is a stable sort by date.
  Every error, also the rejection of the request, is logged and thrown again.
\<close>

definition AlphaVantageService_getDailyTimeSeries ::
  "js_error + alpha_daily \<Rightarrow> js_error + candle list" where
  "AlphaVantageService_getDailyTimeSeries response =
     (case response of
        Inl e \<Rightarrow> Inl e
      | Inr r \<Rightarrow>
          if error_message r \<noteq> [] then Inl (Error (error_message r))
          else if rate_note r \<noteq> [] then Inl (Error ''API rate limit exceeded. Please wait a moment.'')
          else (case time_series r of
                  None \<Rightarrow> Inl (Error ''No time series data available'')
                | Some entries \<Rightarrow> Inr (sort_key date (map daily_candle entries))))"







section \<open>The socket handlers of the server\<close>

text \<open>
  The state of \<^verbatim>\<open>server.js\<close> that the socket handlers touch: the set
  \<^verbatim>\<open>subscribedSymbols\<close>, the map \<^verbatim>\<open>priceUpdateIntervals\<close> from symbol to interval
  handle, the rooms of socket.io (\<^verbatim>\<open>io.sockets.adapter.rooms\<close>: for each room name the
  sockets that joined it), and the interval timers that are running, each with the
  symbol its callback polls. Handles are numbered in the order of \<^verbatim>\<open>setInterval\<close>.
\<close>

type_synonym socket_id = nat

record server =
  subscribedSymbols :: "string set"
  priceUpdateIntervals :: "string \<rightharpoonup> nat"
  rooms :: "string \<Rightarrow> socket_id set"
  timers :: "(nat \<times> string) list"
  next_handle :: nat

definition initial_server :: server where
  "initial_server = \<lparr>subscribedSymbols = {}, priceUpdateIntervals = Map.empty,
                      rooms = (\<lambda>room. {}), timers = [], next_handle = 0\<rparr>"

definition startPriceUpdates :: "string \<Rightarrow> server \<Rightarrow> server" where
  "startPriceUpdates ticker st =
     (if priceUpdateIntervals st ticker \<noteq> None then st
      else (let interval = next_handle st
            in st\<lparr>timers := timers st @ [(interval, ticker)],
                  next_handle := interval + 1,
                  priceUpdateIntervals := (priceUpdateIntervals st)(ticker \<mapsto> interval)\<rparr>))"

definition stopPriceUpdates :: "string \<Rightarrow> server \<Rightarrow> server" where
  "stopPriceUpdates ticker st =
     (case priceUpdateIntervals st ticker of
        None \<Rightarrow> st
      | Some interval \<Rightarrow>
          st\<lparr>timers := filter (\<lambda>(h, s). h \<noteq> interval) (timers st),
              priceUpdateIntervals := (priceUpdateIntervals st)(ticker := None)\<rparr>)"

text \<open>\<^verbatim>\<open>socket.on('subscribe', ...)\<close>\<close>

definition on_subscribe :: "socket_id \<Rightarrow> string \<Rightarrow> server \<Rightarrow> server" where
  "on_subscribe socket ticker st =
     (if ticker = [] then st
      else (let upperSymbol = toUpperCase ticker;
                st1 = st\<lparr>subscribedSymbols := insert upperSymbol (subscribedSymbols st)\<rparr>;
                st2 = (if priceUpdateIntervals st1 upperSymbol = None
                       then startPriceUpdates upperSymbol st1 else st1)
            in st2\<lparr>rooms := (rooms st2)(upperSymbol := insert socket (rooms st2 upperSymbol))\<rparr>))"

text \<open>\<^verbatim>\<open>socket.on('unsubscribe', ...)\<close>\<close>

definition on_unsubscribe :: "socket_id \<Rightarrow> string \<Rightarrow> server \<Rightarrow> server" where
  "on_unsubscribe socket ticker st =
     (if ticker = [] then st
      else (let upperSymbol = toUpperCase ticker;
                st1 = st\<lparr>rooms := (rooms st)(upperSymbol := rooms st upperSymbol - {socket})\<rparr>
            in if rooms st1 upperSymbol = {} then stopPriceUpdates upperSymbol st1 else st1))"

text \<open>
  \<^verbatim>\<open>socket.on('disconnect', ...)\<close>: socket.io takes the socket out of every room; the
  handler itself only logs.
\<close>

definition on_disconnect :: "socket_id \<Rightarrow> server \<Rightarrow> server" where
  "on_disconnect socket st = st\<lparr>rooms := (\<lambda>room. rooms st room - {socket})\<rparr>"

datatype event = Subscribe socket_id string | Unsubscribe socket_id string | Disconnect socket_id

fun handle :: "event \<Rightarrow> server \<Rightarrow> server" where
  "handle (Subscribe socket ticker) st = on_subscribe socket ticker st"
| "handle (Unsubscribe socket ticker) st = on_unsubscribe socket ticker st"
| "handle (Disconnect socket) st = on_disconnect socket st"

fun run :: "event list \<Rightarrow> server \<Rightarrow> server" where
  "run [] st = st"
| "run (e # es) st = run es (handle e st)"

text \<open>The broadcast loops of a symbol: the running timers that poll it.\<close>

definition loops_of :: "server \<Rightarrow> string \<Rightarrow> (nat \<times> string) list" where
  "loops_of st ticker = filter (\<lambda>(h, s). s = ticker) (timers st)"

fun is_disconnect :: "event \<Rightarrow> bool" where
  "is_disconnect (Disconnect socket) = True"
| "is_disconnect e = False"

text \<open>
  What the handlers keep true between events: the map holds exactly the running
  timers, one per symbol at most, handles are fresh, and a symbol has a timer exactly
  when its room has a member.
\<close>

definition registry_invariant :: "server \<Rightarrow> bool" where
  "registry_invariant st =
     ((\<forall>ticker. loops_of st ticker =
          (case priceUpdateIntervals st ticker of None \<Rightarrow> [] | Some h \<Rightarrow> [(h, ticker)]))
      \<and> (\<forall>(h, s)\<in>set (timers st). h < next_handle st)
      \<and> distinct (map fst (timers st))
      \<and> (\<forall>ticker. (rooms st ticker = {}) = (priceUpdateIntervals st ticker = None)))"

section \<open>The fallback chain as an ordered list\<close>

text \<open>
  The order in which \<^verbatim>\<open>getStockData\<close> reaches the four services; it depends on
  \<^verbatim>\<open>API_CONFIG.provider\<close> only.
\<close>

definition priority_order :: "environment \<Rightarrow> service list" where
  "priority_order env =
     [FinnhubService, YahooFinanceService] @
     (if toLowerCase (API_CONFIG_provider env) = ''polygon''
      then [PolygonService, AlphaVantageService]
      else [AlphaVantageService, PolygonService])"

text \<open>
  When the outcome of a service call ends the chain, and with which value: the call
  returned a non-empty list; the value is that list filtered by timeframe; for Finnhub
  and Yahoo the filtered list must be non-empty as well.
\<close>

definition accepted :: "int \<Rightarrow> string \<Rightarrow> service \<Rightarrow> js_error + candle list \<Rightarrow> candle list option" where
  "accepted now timeframe s outcome =
     (case outcome of
        Inl e \<Rightarrow> None
      | Inr data \<Rightarrow>
          if data = [] then None
          else if (s = FinnhubService \<or> s = YahooFinanceService)
                  \<and> filterByTimeframe now data timeframe = [] then None
          else Some (filterByTimeframe now data timeframe))"

text \<open>
  The chain over a list of services: an unconfigured service is skipped without a call,
  a configured one is called, and the first accepted outcome is returned.
\<close>

fun fallback_chain ::
  "environment \<Rightarrow> string \<Rightarrow> string \<Rightarrow> int \<Rightarrow> service list \<Rightarrow> world \<Rightarrow> world \<times> candle list option" where
  "fallback_chain env ticker timeframe days [] w = (w, None)"
| "fallback_chain env ticker timeframe days (s # rest) w =
     (if \<not> isConfigured env s then fallback_chain env ticker timeframe days rest w
      else (case invoke w s GetDataForTimeframe (\<lambda>n. getDataForTimeframe env n s ticker timeframe days) of
              (w', outcome) \<Rightarrow>
                (case accepted (clock w') timeframe s outcome of
                   Some r \<Rightarrow> (w', Some r)
                 | None \<Rightarrow> fallback_chain env ticker timeframe days rest w')))"




section \<open>Example inputs\<close>


definition monday_noon :: world where
  "monday_noon = \<lparr>clock = 1793620800000, calls = [], draws = 0\<rparr>"




text \<open>
  The installation as shipped without API keys: only Yahoo counts as configured, and
  Yahoo refuses every request.
\<close>

definition yahoo_blocked_env :: environment where
  "yahoo_blocked_env =
     \<lparr>API_CONFIG_provider = ''finnhub'',
      isConfigured = (\<lambda>s. s = YahooFinanceService),
      getDataForTimeframe = (\<lambda>n s ticker timeframe days. Inl (Error ''YAHOO_BLOCKED'')),
      getQuote = (\<lambda>n s ticker. Inr None),
      service_searchStocks = (\<lambda>n s query. Inr []),
      Math_random = (\<lambda>k. 1 / 2)\<rparr>"


text \<open>The internal consistency of a candle: the high and the low bracket open and close.\<close>

definition consistent :: "candle \<Rightarrow> bool" where
  "consistent c = (max (open c) (close c) \<le> high c \<and> low c \<le> min (open c) (close c))"

text \<open>As \<open>yahoo_blocked_env\<close>, with \<^verbatim>\<open>Math.random()\<close> returning 1/2, 1/3, 1/4, ...\<close>

definition varying_random_env :: environment where
  "varying_random_env = yahoo_blocked_env\<lparr>Math_random := (\<lambda>k. 1 / (of_nat k + 2))\<rparr>"

text \<open>Responses of Finnhub, Yahoo and Alpha Vantage.\<close>

definition unordered_candles :: finnhub_candles where
  "unordered_candles =
     \<lparr>fc_s = ''ok'', fc_t = Some [1793491200, 1793404800, 1793404800],
      fc_o = [150, 148, 148], fc_h = [152, 149, 149], fc_l = [149, 147, 147],
      fc_c = [151, 148, 148], fc_v = [2000, 1000, 1000]\<rparr>"


definition daily_response :: alpha_daily where
  "daily_response =
     \<lparr>error_message = [], rate_note = [],
      time_series = Some [(20758, \<lparr>av_open = 150, av_high = 152, av_low = 149, av_close = 151,
                                   av_volume = 2000\<rparr>),
                          (20755, \<lparr>av_open = 148, av_high = 149, av_low = 147, av_close = 148,
                                   av_volume = 1000\<rparr>)]\<rparr>"

section \<open>Properties of \<^verbatim>\<open>filterByTimeframe\<close>\<close>

lemma cutoffDate_unnamed:
  "timeframe \<notin> set named_timeframes \<Longrightarrow> cutoffDate now timeframe = None"
  by (simp add: cutoffDate_def named_timeframes_def)

lemma filterByTimeframe_subseq_input: "subseq (filterByTimeframe now data timeframe) data"
  by (simp add: filterByTimeframe_def split: option.split)

text \<open>
  Claim C9. \<^verbatim>\<open>filterByTimeframe\<close> returns its input unchanged for the intraday
  timeframes '1', '5', '15', '30', '60' and for every timeframe that is none of
  '1D', '1W', '1M', '3M', '6M', '1Y'; for every timeframe the output is a subsequence of
  the input: the candles that are kept are the input's own, in the input's order.
\<close>

theorem filterByTimeframe_identity_or_subseq:
  "(timeframe \<in> set intraday_timeframes \<or> timeframe \<notin> set named_timeframes
      \<longrightarrow> filterByTimeframe now data timeframe = data)
   \<and> subseq (filterByTimeframe now data timeframe) data"
proof (intro conjI impI)
  assume "timeframe \<in> set intraday_timeframes \<or> timeframe \<notin> set named_timeframes"
  then show "filterByTimeframe now data timeframe = data"
    by (auto simp: filterByTimeframe_def cutoffDate_unnamed)
next
  show "subseq (filterByTimeframe now data timeframe) data"
    by (rule filterByTimeframe_subseq_input)
qed

theorem filterByTimeframe_identity_or_subseq_witness:
  "filterByTimeframe 1762041600000
     [\<lparr>date = 20000, timestamp = None, open = 1, high = 2, low = 1, close = 2, volume = 5\<rparr>,
      \<lparr>date = 20758, timestamp = None, open = 2, high = 3, low = 1, close = 2, volume = 7\<rparr>] ''15''
   = [\<lparr>date = 20000, timestamp = None, open = 1, high = 2, low = 1, close = 2, volume = 5\<rparr>,
      \<lparr>date = 20758, timestamp = None, open = 2, high = 3, low = 1, close = 2, volume = 7\<rparr>]
   \<and> subseq (filterByTimeframe 1762041600000
     [\<lparr>date = 20000, timestamp = None, open = 1, high = 2, low = 1, close = 2, volume = 5\<rparr>,
      \<lparr>date = 20758, timestamp = None, open = 2, high = 3, low = 1, close = 2, volume = 7\<rparr>] ''15'')
     [\<lparr>date = 20000, timestamp = None, open = 1, high = 2, low = 1, close = 2, volume = 5\<rparr>,
      \<lparr>date = 20758, timestamp = None, open = 2, high = 3, low = 1, close = 2, volume = 7\<rparr>]"
  using filterByTimeframe_identity_or_subseq [of "''15''" 1762041600000
     "[\<lparr>date = 20000, timestamp = None, open = 1, high = 2, low = 1, close = 2, volume = 5\<rparr>,
      \<lparr>date = 20758, timestamp = None, open = 2, high = 3, low = 1, close = 2, volume = 7\<rparr>]"]
  by (simp add: intraday_timeframes_def)

section \<open>Properties of \<^verbatim>\<open>searchStocks\<close>\<close>

lemma str_includes_sublist: "str_includes hay needle = sublist needle hay"
  by (induction hay) (auto simp: sublist_Cons_right)





text \<open>
  With the Yahoo service as it is written (\<^verbatim>\<open>isConfigured()\<close> returns \<^verbatim>\<open>true\<close>) the
  built-in list is out of reach: the last part of \<^verbatim>\<open>searchStocks\<close> returns \<^verbatim>\<open>[]\<close>.
\<close>

lemma demo_stocks_with_yahoo:
  "isConfigured env YahooFinanceService = YahooFinanceService_isConfigured \<Longrightarrow>
   demo_stocks env query w = (w, Inr [])"
  by (simp add: demo_stocks_def YahooFinanceService_isConfigured_def)



section \<open>The fallback chain of \<^verbatim>\<open>getStockData\<close>\<close>

lemma guarded_try_False: "guarded_try False body w = (w, None)"
  by (simp add: guarded_try_def)

lemma chain_step_nonempty:
  "s = FinnhubService \<or> s = YahooFinanceService \<Longrightarrow>
   guarded_try True (attempt_nonempty env s ticker timeframe days) w =
     (case invoke w s GetDataForTimeframe (\<lambda>n. getDataForTimeframe env n s ticker timeframe days) of
        (w', outcome) \<Rightarrow> (w', accepted (clock w') timeframe s outcome))"
  by (auto simp: guarded_try_def attempt_nonempty_def accepted_def invoke_def Let_def
           split: sum.splits)

lemma chain_step_plain:
  "s = PolygonService \<or> s = AlphaVantageService \<Longrightarrow>
   guarded_try True (attempt env s ticker timeframe days) w =
     (case invoke w s GetDataForTimeframe (\<lambda>n. getDataForTimeframe env n s ticker timeframe days) of
        (w', outcome) \<Rightarrow> (w', accepted (clock w') timeframe s outcome))"
  by (auto simp: guarded_try_def attempt_def accepted_def invoke_def split: sum.splits)

lemma chain_cons:
  "(case fallback_chain env ticker timeframe days (s # ss) w of
      (w', Some r) \<Rightarrow> (w', Inr r) | (w', None) \<Rightarrow> rest w')
   = (if isConfigured env s
      then (case invoke w s GetDataForTimeframe (\<lambda>n. getDataForTimeframe env n s ticker timeframe days) of
              (w', outcome) \<Rightarrow>
                (case accepted (clock w') timeframe s outcome of
                   Some r \<Rightarrow> (w', Inr r)
                 | None \<Rightarrow> (case fallback_chain env ticker timeframe days ss w' of
                              (w'', Some r) \<Rightarrow> (w'', Inr r) | (w'', None) \<Rightarrow> rest w'')))
      else (case fallback_chain env ticker timeframe days ss w of
              (w', Some r) \<Rightarrow> (w', Inr r) | (w', None) \<Rightarrow> rest w'))"
  by (simp split: prod.splits option.splits)

lemma or_else_step_nonempty:
  assumes "s = FinnhubService \<or> s = YahooFinanceService"
  shows "or_else (guarded_try c (attempt_nonempty env s ticker timeframe days)) rest w =
     (if c then (case invoke w s GetDataForTimeframe (\<lambda>n. getDataForTimeframe env n s ticker timeframe days) of
        (w', outcome) \<Rightarrow>
          (case accepted (clock w') timeframe s outcome of
             Some r \<Rightarrow> (w', Inr r)
           | None \<Rightarrow> rest w'))
      else rest w)"
  using chain_step_nonempty [OF assms, of env ticker timeframe days w]
  by (simp add: or_else_def guarded_try_False split: prod.splits option.splits)

lemma or_else_step_plain:
  assumes "s = PolygonService \<or> s = AlphaVantageService"
  shows "or_else (guarded_try c (attempt env s ticker timeframe days)) rest w =
     (if c then (case invoke w s GetDataForTimeframe (\<lambda>n. getDataForTimeframe env n s ticker timeframe days) of
        (w', outcome) \<Rightarrow>
          (case accepted (clock w') timeframe s outcome of
             Some r \<Rightarrow> (w', Inr r)
           | None \<Rightarrow> rest w'))
      else rest w)"
  using chain_step_plain [OF assms, of env ticker timeframe days w]
  by (simp add: or_else_def guarded_try_False split: prod.splits option.splits)

lemma getStockData_try_chain:
  "getStockData_try env ticker timeframe days w =
     (case fallback_chain env ticker timeframe days (priority_order env) w of
        (w', Some r) \<Rightarrow> (w', Inr r)
      | (w', None) \<Rightarrow> mock_fallback env ticker timeframe days w')"
proof -
  consider (p) "toLowerCase (API_CONFIG_provider env) = ''polygon''"
    | (a) "toLowerCase (API_CONFIG_provider env) = ''alphavantage''"
    | (o) "toLowerCase (API_CONFIG_provider env) \<noteq> ''polygon''"
          "toLowerCase (API_CONFIG_provider env) \<noteq> ''alphavantage''"
    by blast
  then show ?thesis
  proof cases
    case p
    then show ?thesis
      unfolding getStockData_try_def priority_order_def Let_def
      by (simp add: or_else_step_nonempty or_else_step_plain chain_cons del: fallback_chain.simps(2)
               cong: if_cong prod.case_cong option.case_cong)
  next
    case a
    then show ?thesis
      unfolding getStockData_try_def priority_order_def Let_def
      by (simp add: or_else_step_nonempty or_else_step_plain chain_cons del: fallback_chain.simps(2)
               cong: if_cong prod.case_cong option.case_cong)
  next
    case o
    then show ?thesis
      unfolding getStockData_try_def priority_order_def Let_def
      by (simp add: or_else_step_nonempty or_else_step_plain chain_cons del: fallback_chain.simps(2)
               cong: if_cong prod.case_cong option.case_cong)
  qed
qed


















section \<open>The synthetic generator\<close>


lemma toFixed2_mono: "x \<le> y \<Longrightarrow> toFixed2 x \<le> toFixed2 y"
proof -
  assume xy: "x \<le> y"
  have pos: "0 \<le> z \<Longrightarrow> (0::int) \<le> \<lfloor>z * 100 + 1 / 2\<rfloor>" for z :: rat
    by simp
  consider (nn) "x < 0" "y < 0" | (np) "x < 0" "0 \<le> y" | (pp) "0 \<le> x" "0 \<le> y"
    using xy by linarith
  then show ?thesis
  proof cases
    case nn
    have "\<lfloor>- y * 100 + 1 / 2\<rfloor> \<le> \<lfloor>- x * 100 + 1 / 2\<rfloor>"
      using xy by (intro floor_mono) simp
    then show ?thesis using nn by (simp add: toFixed2_def divide_right_mono)
  next
    case np
    have "(0::int) \<le> \<lfloor>- x * 100 + 1 / 2\<rfloor>" using pos [of "- x"] np by simp
    moreover have "(0::int) \<le> \<lfloor>y * 100 + 1 / 2\<rfloor>" using pos [of y] np by simp
    ultimately have le: "- (of_int \<lfloor>- x * 100 + 1 / 2\<rfloor> / 100) \<le> (0::rat)"
      and ge: "(0::rat) \<le> of_int \<lfloor>y * 100 + 1 / 2\<rfloor> / 100"
      by simp_all
    have tx: "toFixed2 x = - (of_int \<lfloor>- x * 100 + 1 / 2\<rfloor> / 100)"
      using np unfolding toFixed2_def by (simp only: if_True)
    have ty: "toFixed2 y = of_int \<lfloor>y * 100 + 1 / 2\<rfloor> / 100"
      using np unfolding toFixed2_def by (simp only: not_less [symmetric] if_False)
    show ?thesis unfolding tx ty using le ge by (rule order_trans)
  next
    case pp
    have "\<lfloor>x * 100 + 1 / 2\<rfloor> \<le> \<lfloor>y * 100 + 1 / 2\<rfloor>"
      using xy by (intro floor_mono) simp
    then show ?thesis using pp by (simp add: toFixed2_def divide_right_mono)
  qed
qed

lemma mock_candle_consistent:
  assumes "0 \<le> r2" and "0 \<le> r3"
  shows "consistent \<lparr>date = d, timestamp = None, open = toFixed2 opn,
           high = toFixed2 (max opn cp + r2 * 3), low = toFixed2 (min opn cp - r3 * 3),
           close = toFixed2 cp, volume = v\<rparr>"
proof -
  have "opn \<le> max opn cp + r2 * 3" "cp \<le> max opn cp + r2 * 3"
       "min opn cp - r3 * 3 \<le> opn" "min opn cp - r3 * 3 \<le> cp"
    using assms by (simp_all add: max_def min_def)
  then show ?thesis
    by (simp add: consistent_def toFixed2_mono)
qed

lemma mock_loop_consistent:
  assumes "\<forall>k. 0 \<le> rnd k"
  shows "mock_loop rnd sd i n p k = (Inr cs, k') \<Longrightarrow> \<forall>c\<in>set cs. consistent c"
proof (induction n arbitrary: i p k cs k')
  case 0
  then show ?case by simp
next
  case (Suc n)
  show ?case
  proof (cases "getDay (addDays sd i) = Some 0 \<or> getDay (addDays sd i) = Some 6")
    case True
    with Suc.prems have "mock_loop rnd sd (i + 1) n p k = (Inr cs, k')" by simp
    then show ?thesis by (rule Suc.IH)
  next
    case False
    let ?cp = "max 10 (p + (rnd k - 45 / 100) * 2)"
    let ?opn = "?cp + (rnd (k + 1) - 1 / 2) * 2"
    from False Suc.prems obtain isoDate rest where
      rest: "mock_loop rnd sd (i + 1) n ?cp (k + 5) = (Inr rest, k')"
      and cs: "cs = \<lparr>date = isoDate, timestamp = None, open = toFixed2 ?opn,
                     high = toFixed2 (max ?opn ?cp + rnd (k + 2) * 3),
                     low = toFixed2 (min ?opn ?cp - rnd (k + 3) * 3),
                     close = toFixed2 ?cp,
                     volume = \<lfloor>1000000 + rnd (k + 4) * 5000000\<rfloor>\<rparr> # rest"
      by (auto simp: Let_def split: sum.splits prod.splits)
    have "\<forall>c\<in>set rest. consistent c" using rest by (rule Suc.IH)
    moreover have "consistent \<lparr>date = isoDate, timestamp = None, open = toFixed2 ?opn,
                     high = toFixed2 (max ?opn ?cp + rnd (k + 2) * 3),
                     low = toFixed2 (min ?opn ?cp - rnd (k + 3) * 3),
                     close = toFixed2 ?cp,
                     volume = \<lfloor>1000000 + rnd (k + 4) * 5000000\<rfloor>\<rparr>"
      using assms by (intro mock_candle_consistent) auto
    ultimately show ?thesis using cs by simp
  qed
qed

lemma mock_loop_dates:
  "map_sum id (map date) (fst (mock_loop rnd1 sd i n p1 k1)) =
   map_sum id (map date) (fst (mock_loop rnd2 sd i n p2 k2))"
proof (induction n arbitrary: i p1 k1 p2 k2)
  case 0
  then show ?case by simp
next
  case (Suc n)
  show ?case
  proof (cases "getDay (addDays sd i) = Some 0 \<or> getDay (addDays sd i) = Some 6")
    case True
    then show ?thesis using Suc.IH [of "i + 1" p1 k1 p2 k2] by simp
  next
    case False
    show ?thesis
    proof (cases "toISODate (addDays sd i)")
      case (Inl e)
      with False show ?thesis by (simp add: Let_def)
    next
      case (Inr isoDate)
      let ?cp1 = "max 10 (p1 + (rnd1 k1 - 45 / 100) * 2)"
      let ?cp2 = "max 10 (p2 + (rnd2 k2 - 45 / 100) * 2)"
      from Suc.IH [of "i + 1" ?cp1 "k1 + 5" ?cp2 "k2 + 5"] False Inr
      show ?thesis
        by (auto simp: Let_def split: sum.splits prod.splits)
    qed
  qed
qed

lemma mock_loop_valid:
  assumes "\<forall>j. i \<le> j \<and> j < i + int n \<longrightarrow> addDays sd j \<noteq> None"
  shows "\<exists>cs k'. mock_loop rnd sd i n p k = (Inr cs, k')
           \<and> ((\<exists>j. i \<le> j \<and> j < i + int n \<and> getDay (addDays sd j) \<noteq> Some 0
                    \<and> getDay (addDays sd j) \<noteq> Some 6) \<longrightarrow> cs \<noteq> [])"
  using assms
proof (induction n arbitrary: i p k)
  case 0
  then show ?case by simp
next
  case (Suc n)
  have valid': "\<forall>j. i + 1 \<le> j \<and> j < i + 1 + int n \<longrightarrow> addDays sd j \<noteq> None"
    using Suc.prems by auto
  show ?case
  proof (cases "getDay (addDays sd i) = Some 0 \<or> getDay (addDays sd i) = Some 6")
    case True
    from Suc.IH [OF valid', of p k] obtain cs k' where
      r: "mock_loop rnd sd (i + 1) n p k = (Inr cs, k')"
      and ne: "(\<exists>j. i + 1 \<le> j \<and> j < i + 1 + int n \<and> getDay (addDays sd j) \<noteq> Some 0
                    \<and> getDay (addDays sd j) \<noteq> Some 6) \<longrightarrow> cs \<noteq> []"
      by blast
    have "(\<exists>j. i \<le> j \<and> j < i + int (Suc n) \<and> getDay (addDays sd j) \<noteq> Some 0
                    \<and> getDay (addDays sd j) \<noteq> Some 6) \<longrightarrow> cs \<noteq> []"
    proof
      assume "\<exists>j. i \<le> j \<and> j < i + int (Suc n) \<and> getDay (addDays sd j) \<noteq> Some 0
                    \<and> getDay (addDays sd j) \<noteq> Some 6"
      then obtain j where j: "i \<le> j" "j < i + int (Suc n)" "getDay (addDays sd j) \<noteq> Some 0"
          "getDay (addDays sd j) \<noteq> Some 6" by blast
      with True have "j \<noteq> i" by auto
      with j have "i + 1 \<le> j \<and> j < i + 1 + int n" by simp
      with j ne show "cs \<noteq> []" by blast
    qed
    with True r show ?thesis by simp
  next
    case False
    have "addDays sd i \<noteq> None" using Suc.prems by simp
    then obtain t where t: "addDays sd i = Some t" by auto
    let ?cp = "max 10 (p + (rnd k - 45 / 100) * 2)"
    from Suc.IH [OF valid', of ?cp "k + 5"] obtain rest k' where
      r: "mock_loop rnd sd (i + 1) n ?cp (k + 5) = (Inr rest, k')"
      by blast
    with False t show ?thesis
      by (simp add: Let_def toISODate_def)
  qed
qed


lemma getDay_addDays:
  "addDays (Some t) j \<noteq> None \<Longrightarrow> getDay (addDays (Some t) j) = Some ((Day t + 4 + j) mod 7)"
  by (auto simp: addDays_def TimeClip_def getDay_def Day_def msPerDay_def add_ac split: if_splits)

lemma weekday_within_three:
  fixes a :: int
  shows "\<exists>j. 0 \<le> j \<and> j < 3 \<and> (a + j) mod 7 \<noteq> 0 \<and> (a + j) mod 7 \<noteq> 6"
proof -
  have "(a mod 7 \<noteq> 0 \<and> a mod 7 \<noteq> 6) \<or> ((a + 1) mod 7 \<noteq> 0 \<and> (a + 1) mod 7 \<noteq> 6)
        \<or> ((a + 2) mod 7 \<noteq> 0 \<and> (a + 2) mod 7 \<noteq> 6)"
    by presburger
  then show ?thesis
  proof (elim disjE)
    assume "a mod 7 \<noteq> 0 \<and> a mod 7 \<noteq> 6"
    then show ?thesis by (intro exI [of _ 0]) simp
  next
    assume "(a + 1) mod 7 \<noteq> 0 \<and> (a + 1) mod 7 \<noteq> 6"
    then show ?thesis by (intro exI [of _ 1]) simp
  next
    assume "(a + 2) mod 7 \<noteq> 0 \<and> (a + 2) mod 7 \<noteq> 6"
    then show ?thesis by (intro exI [of _ 2]) simp
  qed
qed

lemma startDate_range:
  assumes "\<bar>clock w\<bar> \<le> 8640000000000000" and "\<bar>clock w - days * msPerDay\<bar> \<le> 8640000000000000"
  shows "\<forall>j. 0 \<le> j \<and> j < 0 + int (nat days) \<longrightarrow>
           addDays (addDays (Some (clock w)) (- days)) j \<noteq> None"
proof (intro allI impI)
  fix j assume j: "0 \<le> j \<and> j < 0 + int (nat days)"
  then have d: "0 < days" "j < days" by (cases "0 \<le> days"; simp)+
  have "clock w - days * msPerDay \<le> clock w - days * msPerDay + j * msPerDay"
    using j by (simp add: msPerDay_def)
  moreover have "clock w - days * msPerDay + j * msPerDay \<le> clock w"
  proof -
    have "j * msPerDay \<le> days * msPerDay" using d by (simp add: msPerDay_def)
    then show ?thesis by simp
  qed
  ultimately have "\<bar>clock w - days * msPerDay + j * msPerDay\<bar> \<le> 8640000000000000"
    using assms by linarith
  then show "addDays (addDays (Some (clock w)) (- days)) j \<noteq> None"
    using assms(2) by (simp add: addDays_def TimeClip_def)
qed

lemma generateMockData_in_range:
  assumes "\<bar>clock w\<bar> \<le> 8640000000000000" and "\<bar>clock w - days * msPerDay\<bar> \<le> 8640000000000000"
  shows "\<exists>w' series. generateMockData env ticker days w = (w', Inr series)
           \<and> (3 \<le> days \<longrightarrow> series \<noteq> [])"
proof -
  let ?sd = "addDays (Some (clock w)) (- days)"
  let ?bp = "100 + Math_random env (draws w) * 50"
  from mock_loop_valid [OF startDate_range [OF assms], of "Math_random env" ?bp "draws w + 1"]
  obtain cs k' where
    r: "mock_loop (Math_random env) ?sd 0 (nat days) ?bp (draws w + 1) = (Inr cs, k')"
    and ne: "(\<exists>j. 0 \<le> j \<and> j < 0 + int (nat days) \<and> getDay (addDays ?sd j) \<noteq> Some 0
                    \<and> getDay (addDays ?sd j) \<noteq> Some 6) \<longrightarrow> cs \<noteq> []"
    by blast
  have "cs \<noteq> []" if three: "3 \<le> days"
  proof -
    obtain t where t: "?sd = Some t"
      using assms(2) by (simp add: addDays_def TimeClip_def)
    obtain j where j: "0 \<le> j" "j < 3" "(Day t + 4 + j) mod 7 \<noteq> 0" "(Day t + 4 + j) mod 7 \<noteq> 6"
      using weekday_within_three [of "Day t + 4"] by blast
    have jd: "0 \<le> j \<and> j < 0 + int (nat days)" using j three by simp
    then have "addDays ?sd j \<noteq> None" using startDate_range [OF assms] by blast
    then have "getDay (addDays ?sd j) = Some ((Day t + 4 + j) mod 7)"
      unfolding t by (rule getDay_addDays)
    with j jd ne show ?thesis by auto
  qed
  with r show ?thesis by (simp add: generateMockData_def Let_def)
qed

lemma generateMockData_consistent:
  assumes "\<forall>k. 0 \<le> Math_random env k"
    and "generateMockData env ticker days w = (w', Inr series)"
  shows "\<forall>c\<in>set series. consistent c"
proof -
  obtain res k' where r: "mock_loop (Math_random env) (addDays (Some (clock w)) (- days)) 0 (nat days)
            (100 + Math_random env (draws w) * 50) (draws w + 1) = (res, k')"
    by (cases "mock_loop (Math_random env) (addDays (Some (clock w)) (- days)) 0 (nat days)
            (100 + Math_random env (draws w) * 50) (draws w + 1)")
  with assms(2) have "res = Inr series" by (simp add: generateMockData_def Let_def)
  with r mock_loop_consistent [OF assms(1)] show ?thesis by blast
qed

lemma filterByTimeframe_subset: "set (filterByTimeframe now data timeframe) \<subseteq> set data"
  by (auto simp: filterByTimeframe_def split: option.splits)

lemma mock_fallback_consistent:
  assumes "\<forall>k. 0 \<le> Math_random env k"
    and "mock_fallback env ticker timeframe days w = (w', Inr series)"
  shows "\<forall>c\<in>set series. consistent c"
proof (cases "generateMockData env ticker days w")
  case (Pair w1 res)
  with assms(2) obtain mockData where m: "res = Inr mockData"
    and s: "series = filterByTimeframe (clock w1) mockData timeframe \<or> series = mockData"
    by (auto simp: mock_fallback_def Let_def split: sum.splits if_splits)
  have "\<forall>c\<in>set mockData. consistent c"
    using generateMockData_consistent [OF assms(1)] Pair m by blast
  with s filterByTimeframe_subset [of "clock w1" mockData timeframe] show ?thesis by auto
qed

lemma mock_fallback_in_range:
  assumes "\<bar>clock w\<bar> \<le> 8640000000000000" and "\<bar>clock w - days * msPerDay\<bar> \<le> 8640000000000000"
  shows "\<exists>w' series. mock_fallback env ticker timeframe days w = (w', Inr series)
           \<and> (3 \<le> days \<longrightarrow> series \<noteq> [])"
proof -
  from generateMockData_in_range [OF assms, of env ticker] obtain w1 mockData where
    g: "generateMockData env ticker days w = (w1, Inr mockData)" "3 \<le> days \<longrightarrow> mockData \<noteq> []"
    by blast
  then show ?thesis by (simp add: mock_fallback_def Let_def)
qed


lemma chain_clock:
  "fallback_chain env ticker timeframe days ss w = (w', r) \<Longrightarrow> clock w' = clock w"
proof (induction ss arbitrary: w)
  case Nil
  then show ?case by simp
next
  case (Cons s ss)
  show ?case
  proof (cases "isConfigured env s")
    case False
    with Cons show ?thesis by simp
  next
    case True
    let ?w1 = "w\<lparr>calls := calls w @ [(s, GetDataForTimeframe)]\<rparr>"
    show ?thesis
    proof (cases "accepted (clock w) timeframe s
                    (getDataForTimeframe env (length (calls w)) s ticker timeframe days)")
      case (Some x)
      with True Cons.prems show ?thesis by (auto simp: invoke_def)
    next
      case None
      with True Cons.prems have "fallback_chain env ticker timeframe days ss ?w1 = (w', r)"
        by (simp add: invoke_def)
      from Cons.IH [OF this] show ?thesis by simp
    qed
  qed
qed

lemma chain_all_fail:
  assumes "\<forall>n s. isConfigured env s \<longrightarrow>
             (case getDataForTimeframe env n s ticker timeframe days of
                Inl e \<Rightarrow> True | Inr data \<Rightarrow> data = [])"
  shows "snd (fallback_chain env ticker timeframe days ss w) = None"
proof (induction ss arbitrary: w)
  case Nil
  then show ?case by simp
next
  case (Cons s ss)
  show ?case
  proof (cases "isConfigured env s")
    case False
    with Cons show ?thesis by simp
  next
    case True
    with assms have "accepted (clock w) timeframe s
                    (getDataForTimeframe env (length (calls w)) s ticker timeframe days) = None"
      by (auto simp: accepted_def split: sum.splits)
    with True Cons.IH show ?thesis by (simp add: invoke_def)
  qed
qed

lemma getStockData_never_throws_in_range:
  assumes "\<bar>clock w\<bar> \<le> 8640000000000000" and "\<bar>clock w - days * msPerDay\<bar> \<le> 8640000000000000"
  shows "\<exists>w' series. getStockData env ticker timeframe days w = (w', Inr series)"
proof (cases "fallback_chain env ticker timeframe days (priority_order env) w")
  case (Pair w1 r)
  show ?thesis
  proof (cases r)
    case (Some x)
    with Pair show ?thesis by (simp add: getStockData_def getStockData_try_chain)
  next
    case None
    have c: "clock w1 = clock w" using chain_clock [OF Pair] .
    from mock_fallback_in_range [of w1 days env ticker timeframe] assms c
    obtain w' series where "mock_fallback env ticker timeframe days w1 = (w', Inr series)"
      by auto
    with Pair None show ?thesis by (simp add: getStockData_def getStockData_try_chain)
  qed
qed

lemma getCurrentPrice_never_throws: "\<exists>w' r. getCurrentPrice env ticker w = (w', Inr r)"
  by (simp add: getCurrentPrice_def split: prod.splits sum.splits)

lemma searchStocks_never_throws: "\<exists>w' r. searchStocks env query w = (w', Inr r)"
  by (simp add: searchStocks_def split: prod.splits sum.splits)

text \<open>
  Claim C3, as amended. When every configured service fails (throws or returns an empty
  list) and the clock and the generator's start date (the clock moved back by the day
  count) are representable dates, \<^verbatim>\<open>getStockData\<close> returns a series in which every
  candle has high \<open>\<ge>\<close> max(open, close) and low \<open>\<le>\<close> min(open, close); the series is
  non-empty when the day count is at least 3 (any three consecutive days hold a
  business day).
\<close>

theorem getStockData_synthetic_fallback:
  assumes "\<forall>k. 0 \<le> Math_random env k \<and> Math_random env k < 1"
    and "\<forall>n s. isConfigured env s \<longrightarrow>
           (case getDataForTimeframe env n s ticker timeframe days of
              Inl e \<Rightarrow> True | Inr data \<Rightarrow> data = [])"
    and "\<bar>clock w\<bar> \<le> 8640000000000000"
    and "\<bar>clock w - days * msPerDay\<bar> \<le> 8640000000000000"
  shows "\<exists>w' series. getStockData env ticker timeframe days w = (w', Inr series)
           \<and> (3 \<le> days \<longrightarrow> series \<noteq> [])
           \<and> (\<forall>c\<in>set series. consistent c)"
proof (cases "fallback_chain env ticker timeframe days (priority_order env) w")
  case (Pair w1 r)
  have r: "r = None"
    using chain_all_fail [OF assms(2), of "priority_order env" w] Pair by simp
  have c: "clock w1 = clock w" using chain_clock [OF Pair] .
  from mock_fallback_in_range [of w1 days env ticker timeframe] assms(3,4) c
  obtain w' series where m: "mock_fallback env ticker timeframe days w1 = (w', Inr series)"
    and ne: "3 \<le> days \<longrightarrow> series \<noteq> []"
    by auto
  have rnd: "\<forall>k. 0 \<le> Math_random env k" using assms(1) by simp
  have "\<forall>c\<in>set series. consistent c"
    using mock_fallback_consistent [OF rnd m] .
  moreover have "getStockData env ticker timeframe days w = (w', Inr series)"
    using Pair r m by (simp add: getStockData_def getStockData_try_chain)
  ultimately show ?thesis using ne by blast
qed

theorem getStockData_synthetic_fallback_witness:
  "\<exists>w' series. getStockData yahoo_blocked_env ''AAPL'' ''1D'' 3 monday_noon = (w', Inr series)
      \<and> series \<noteq> [] \<and> list_all consistent series"
proof -
  have r: "\<forall>k. 0 \<le> Math_random yahoo_blocked_env k \<and> Math_random yahoo_blocked_env k < 1"
    by (simp add: yahoo_blocked_env_def)
  have f: "\<forall>n s. isConfigured yahoo_blocked_env s \<longrightarrow>
           (case getDataForTimeframe yahoo_blocked_env n s ''AAPL'' ''1D'' 3 of
              Inl e \<Rightarrow> True | Inr data \<Rightarrow> data = [])"
    by (simp add: yahoo_blocked_env_def)
  have c1: "\<bar>clock monday_noon\<bar> \<le> 8640000000000000"
    by (simp add: monday_noon_def)
  have c2: "\<bar>clock monday_noon - 3 * msPerDay\<bar> \<le> 8640000000000000"
    by (simp add: monday_noon_def msPerDay_def)
  show ?thesis
    using getStockData_synthetic_fallback [OF r f c1 c2] by (simp add: list_all_iff)
qed

theorem getStockData_empty_series_counterexample:
  "getDataForTimeframe yahoo_blocked_env 0 YahooFinanceService ''AAPL'' ''1D'' 1
     = Inl (Error ''YAHOO_BLOCKED'')
   \<and> getStockData yahoo_blocked_env ''AAPL'' ''1D'' 1 monday_noon =
       (monday_noon\<lparr>calls := [(YahooFinanceService, GetDataForTimeframe)], draws := 1\<rparr>, Inr [])"
  by code_simp

lemma generateMockData_out_of_range:
  assumes "0 < days" and "addDays (Some (clock w)) (- days) = None"
  shows "generateMockData env ticker days w =
           (w\<lparr>draws := draws w + 6\<rparr>, Inl (RangeError ''Invalid time value''))"
proof -
  obtain m where m: "nat days = Suc m"
    using assms(1) by (cases "nat days") auto
  have none: "addDays None 0 = None"
    by (simp add: addDays_def)
  show ?thesis
    unfolding generateMockData_def assms(2) m
    by (simp add: none getDay_def toISODate_def Let_def)
qed

lemma mock_fallback_out_of_range:
  assumes "0 < days" and "addDays (Some (clock w)) (- days) = None"
  shows "mock_fallback env ticker timeframe days w =
           (w\<lparr>draws := draws w + 6\<rparr>, Inl (RangeError ''Invalid time value''))"
  by (simp add: mock_fallback_def generateMockData_out_of_range [OF assms])

lemma getStockData_catch_other_provider:
  assumes "toLowerCase (API_CONFIG_provider env) \<noteq> ''polygon''"
    and "toLowerCase (API_CONFIG_provider env) \<noteq> ''alphavantage''"
  shows "getStockData_catch env ticker timeframe days e w = mock_fallback env ticker timeframe days w"
  using assms
  by (simp add: getStockData_catch_def or_else_def guarded_try_def fallback_providers_def)

text \<open>
  Claim C4 at a failing input. Without API keys and with Yahoo refusing the request,
  \<^verbatim>\<open>getStockData('AAPL', '1Y', 200000000)\<close> throws: the generator's start date lies
  before the earliest representable date, \<^verbatim>\<open>toISOString\<close> throws a RangeError in the
  first iteration, the outer \<^verbatim>\<open>catch\<close> runs the generator again, and the second
  RangeError leaves the function.
\<close>

theorem getStockData_throws_RangeError:
  "getStockData yahoo_blocked_env ''AAPL'' ''1Y'' 200000000 monday_noon =
     (monday_noon\<lparr>calls := [(YahooFinanceService, GetDataForTimeframe)], draws := 12\<rparr>,
      Inl (RangeError ''Invalid time value''))"
proof -
  let ?w1 = "monday_noon\<lparr>calls := [(YahooFinanceService, GetDataForTimeframe)]\<rparr>"
  have chain: "fallback_chain yahoo_blocked_env ''AAPL'' ''1Y'' 200000000
                 (priority_order yahoo_blocked_env) monday_noon = (?w1, None)"
    by code_simp
  have start: "addDays (Some (clock ?w1)) (- 200000000) = None"
    by (simp add: monday_noon_def addDays_def TimeClip_def msPerDay_def)
  have start': "addDays (Some (clock (?w1\<lparr>draws := draws ?w1 + 6\<rparr>))) (- 200000000) = None"
    using start by simp
  have provider: "toLowerCase (API_CONFIG_provider yahoo_blocked_env) = ''finnhub''"
    by code_simp
  have tried: "getStockData_try yahoo_blocked_env ''AAPL'' ''1Y'' 200000000 monday_noon =
               (?w1\<lparr>draws := draws ?w1 + 6\<rparr>, Inl (RangeError ''Invalid time value''))"
    using mock_fallback_out_of_range [OF _ start, of yahoo_blocked_env "''AAPL''" "''1Y''"]
    by (simp add: getStockData_try_chain chain)
  have caught: "getStockData_catch yahoo_blocked_env ''AAPL'' ''1Y'' 200000000
                 (RangeError ''Invalid time value'') (?w1\<lparr>draws := draws ?w1 + 6\<rparr>) =
               (?w1\<lparr>draws := draws ?w1 + 6 + 6\<rparr>, Inl (RangeError ''Invalid time value''))"
    using mock_fallback_out_of_range [OF _ start', of yahoo_blocked_env "''AAPL''" "''1Y''"]
    by (simp add: getStockData_catch_other_provider provider)
  have "getStockData yahoo_blocked_env ''AAPL'' ''1Y'' 200000000 monday_noon =
          (?w1\<lparr>draws := draws ?w1 + 6 + 6\<rparr>, Inl (RangeError ''Invalid time value''))"
    by (simp only: getStockData_def tried caught prod.case sum.case)
  then show ?thesis
    by (simp add: monday_noon_def)
qed

text \<open>
  Claim C7, as amended. \<^verbatim>\<open>generateMockData\<close> has no seed and does not read its symbol:
  calls with different symbols in the same world give the same result, and the dates of
  the series (hence its length), or the error thrown, are fixed by the day count and the
  clock alone, whatever \<^verbatim>\<open>Math.random()\<close> returns and however many values were drawn
  before; prices and volumes follow the values drawn.
\<close>

theorem generateMockData_unseeded:
  "generateMockData env ticker1 days w = generateMockData env ticker2 days w
   \<and> map_sum id (map date) (snd (generateMockData env1 ticker1 days w)) =
     map_sum id (map date) (snd (generateMockData env2 ticker2 days (w\<lparr>draws := k\<rparr>)))"
proof
  show "generateMockData env ticker1 days w = generateMockData env ticker2 days w"
    by (simp add: generateMockData_def)
  show "map_sum id (map date) (snd (generateMockData env1 ticker1 days w)) =
     map_sum id (map date) (snd (generateMockData env2 ticker2 days (w\<lparr>draws := k\<rparr>)))"
    using mock_loop_dates [of "Math_random env1" "addDays (Some (clock w)) (- days)" 0 "nat days"
             "100 + Math_random env1 (draws w) * 50" "draws w + 1" "Math_random env2"
             "100 + Math_random env2 k * 50" "k + 1"]
    by (auto simp: generateMockData_def Let_def split: prod.splits)
qed

theorem generateMockData_repeat_counterexample:
  "snd (generateMockData varying_random_env ''AAPL'' 3 monday_noon) \<noteq>
   snd (generateMockData varying_random_env ''AAPL'' 3
          (fst (generateMockData varying_random_env ''AAPL'' 3 monday_noon)))"
  by code_simp


section \<open>The subscription registry\<close>

lemma registry_invariant_initial: "registry_invariant initial_server"
  by (simp add: registry_invariant_def initial_server_def loops_of_def)

lemma loops_of_append:
  "loops_of (st\<lparr>timers := timers st @ [(n, u)], next_handle := k, priceUpdateIntervals := m\<rparr>) t
     = loops_of st t @ (if u = t then [(n, u)] else [])"
  by (simp add: loops_of_def)

lemma loops_of_filter:
  "loops_of (st\<lparr>timers := filter P (timers st), priceUpdateIntervals := m\<rparr>) t
     = filter P (loops_of st t)"
  by (auto simp: loops_of_def intro: filter_cong)

lemma loops_of_rooms [simp]: "loops_of (st\<lparr>rooms := r\<rparr>) t = loops_of st t"
  by (simp add: loops_of_def)

lemma loops_of_subscribed [simp]: "loops_of (st\<lparr>subscribedSymbols := r\<rparr>) t = loops_of st t"
  by (simp add: loops_of_def)

lemma loops_of_member: "(h, s) \<in> set (loops_of st t) \<Longrightarrow> (h, s) \<in> set (timers st) \<and> s = t"
  by (auto simp: loops_of_def)

lemma startPriceUpdates_invariant:
  assumes "registry_invariant st" and "priceUpdateIntervals st u = None"
  shows "(\<forall>ticker. loops_of (startPriceUpdates u st) ticker =
          (case priceUpdateIntervals (startPriceUpdates u st) ticker of
             None \<Rightarrow> [] | Some h \<Rightarrow> [(h, ticker)]))"
    and "\<forall>(h, s)\<in>set (timers (startPriceUpdates u st)). h < next_handle (startPriceUpdates u st)"
    and "distinct (map fst (timers (startPriceUpdates u st)))"
    and "priceUpdateIntervals (startPriceUpdates u st) = (priceUpdateIntervals st)(u \<mapsto> next_handle st)"
    and "rooms (startPriceUpdates u st) = rooms st"
proof -
  have i1: "\<forall>ticker. loops_of st ticker =
          (case priceUpdateIntervals st ticker of None \<Rightarrow> [] | Some h \<Rightarrow> [(h, ticker)])"
    and i2: "\<forall>(h, s)\<in>set (timers st). h < next_handle st"
    and i3: "distinct (map fst (timers st))"
    using assms(1) by (simp_all add: registry_invariant_def)
  have eq: "startPriceUpdates u st =
          st\<lparr>timers := timers st @ [(next_handle st, u)], next_handle := next_handle st + 1,
             priceUpdateIntervals := (priceUpdateIntervals st)(u \<mapsto> next_handle st)\<rparr>"
    using assms(2) by (simp add: startPriceUpdates_def Let_def)
  show "\<forall>ticker. loops_of (startPriceUpdates u st) ticker =
          (case priceUpdateIntervals (startPriceUpdates u st) ticker of
             None \<Rightarrow> [] | Some h \<Rightarrow> [(h, ticker)])"
    unfolding eq using i1 assms(2) by (simp add: loops_of_append)
  show "\<forall>(h, s)\<in>set (timers (startPriceUpdates u st)). h < next_handle (startPriceUpdates u st)"
    unfolding eq using i2 by auto
  have "next_handle st \<notin> fst ` set (timers st)"
    using i2 by force
  then show "distinct (map fst (timers (startPriceUpdates u st)))"
    unfolding eq using i3 by simp
  show "priceUpdateIntervals (startPriceUpdates u st) = (priceUpdateIntervals st)(u \<mapsto> next_handle st)"
    unfolding eq by simp
  show "rooms (startPriceUpdates u st) = rooms st"
    unfolding eq by simp
qed

lemma stopPriceUpdates_invariant:
  assumes i1: "\<forall>ticker. loops_of st ticker =
          (case priceUpdateIntervals st ticker of None \<Rightarrow> [] | Some h \<Rightarrow> [(h, ticker)])"
    and i2: "\<forall>(h, s)\<in>set (timers st). h < next_handle st"
    and i3: "distinct (map fst (timers st))"
  shows "(\<forall>ticker. loops_of (stopPriceUpdates u st) ticker =
          (case priceUpdateIntervals (stopPriceUpdates u st) ticker of
             None \<Rightarrow> [] | Some h \<Rightarrow> [(h, ticker)]))"
    and "\<forall>(h, s)\<in>set (timers (stopPriceUpdates u st)). h < next_handle (stopPriceUpdates u st)"
    and "distinct (map fst (timers (stopPriceUpdates u st)))"
    and "priceUpdateIntervals (stopPriceUpdates u st) = (priceUpdateIntervals st)(u := None)"
    and "rooms (stopPriceUpdates u st) = rooms st"
proof -
  show "priceUpdateIntervals (stopPriceUpdates u st) = (priceUpdateIntervals st)(u := None)"
    by (auto simp: stopPriceUpdates_def split: option.splits)
  show "rooms (stopPriceUpdates u st) = rooms st"
    by (simp add: stopPriceUpdates_def split: option.splits)
  show "\<forall>(h, s)\<in>set (timers (stopPriceUpdates u st)). h < next_handle (stopPriceUpdates u st)"
    using i2 by (auto simp: stopPriceUpdates_def split: option.splits)
  show "distinct (map fst (timers (stopPriceUpdates u st)))"
    using i3 by (auto simp: stopPriceUpdates_def distinct_map_filter split: option.splits)
  show "\<forall>ticker. loops_of (stopPriceUpdates u st) ticker =
          (case priceUpdateIntervals (stopPriceUpdates u st) ticker of
             None \<Rightarrow> [] | Some h \<Rightarrow> [(h, ticker)])"
  proof (cases "priceUpdateIntervals st u")
    case None
    then show ?thesis using i1 by (simp add: stopPriceUpdates_def)
  next
    case (Some i)
    have eq: "stopPriceUpdates u st =
            st\<lparr>timers := filter (\<lambda>(h, s). h \<noteq> i) (timers st),
               priceUpdateIntervals := (priceUpdateIntervals st)(u := None)\<rparr>"
      using Some by (simp add: stopPriceUpdates_def)
    have mine: "(i, u) \<in> set (timers st)"
      using i1 Some loops_of_member [of i u st u] by (metis list.set_intros(1) option.simps(5))
    show ?thesis
    proof
      fix t
      show "loops_of (stopPriceUpdates u st) t =
          (case priceUpdateIntervals (stopPriceUpdates u st) t of
             None \<Rightarrow> [] | Some h \<Rightarrow> [(h, t)])"
      proof (cases "t = u")
        case True
        then show ?thesis unfolding eq using i1 Some by (simp add: loops_of_filter)
      next
        case False
        show ?thesis
        proof (cases "priceUpdateIntervals st t")
          case None
          then show ?thesis unfolding eq using i1 False by (simp add: loops_of_filter)
        next
          case (Some h)
          then have l: "loops_of st t = [(h, t)]" using i1 by simp
          then have "(h, t) \<in> set (timers st)"
            using loops_of_member [of h t st t] by simp
          with mine i3 False have "h \<noteq> i"
            by (metis eq_key_imp_eq_value)
          then show ?thesis unfolding eq using l Some False by (simp add: loops_of_filter)
        qed
      qed
    qed
  qed
qed

lemma on_subscribe_invariant:
  assumes "registry_invariant st"
  shows "registry_invariant (on_subscribe socket ticker st)"
proof (cases "ticker = []")
  case True
  with assms show ?thesis by (simp add: on_subscribe_def)
next
  case False
  let ?u = "toUpperCase ticker"
  let ?st1 = "st\<lparr>subscribedSymbols := insert ?u (subscribedSymbols st)\<rparr>"
  have inv1: "registry_invariant ?st1"
    using assms by (simp add: registry_invariant_def)
  show ?thesis
  proof (cases "priceUpdateIntervals st ?u")
    case None
    then have n: "priceUpdateIntervals ?st1 ?u = None" by simp
    note sp = startPriceUpdates_invariant [OF inv1 n]
    have "on_subscribe socket ticker st =
            (startPriceUpdates ?u ?st1)\<lparr>rooms := (rooms (startPriceUpdates ?u ?st1))
               (?u := insert socket (rooms (startPriceUpdates ?u ?st1) ?u))\<rparr>"
      using False None by (simp add: on_subscribe_def Let_def)
    moreover have "registry_invariant ((startPriceUpdates ?u ?st1)\<lparr>rooms := (rooms (startPriceUpdates ?u ?st1))
               (?u := insert socket (rooms (startPriceUpdates ?u ?st1) ?u))\<rparr>)"
      using sp inv1 by (simp add: registry_invariant_def)
    ultimately show ?thesis by simp
  next
    case (Some h)
    have "on_subscribe socket ticker st = ?st1\<lparr>rooms := (rooms ?st1)(?u := insert socket (rooms ?st1 ?u))\<rparr>"
      using False Some by (simp add: on_subscribe_def Let_def)
    moreover have "registry_invariant (?st1\<lparr>rooms := (rooms ?st1)(?u := insert socket (rooms ?st1 ?u))\<rparr>)"
      using inv1 Some by (simp add: registry_invariant_def)
    ultimately show ?thesis by simp
  qed
qed

lemma on_unsubscribe_invariant:
  assumes "registry_invariant st"
  shows "registry_invariant (on_unsubscribe socket ticker st)"
proof (cases "ticker = []")
  case True
  with assms show ?thesis by (simp add: on_unsubscribe_def)
next
  case False
  let ?u = "toUpperCase ticker"
  let ?st1 = "st\<lparr>rooms := (rooms st)(?u := rooms st ?u - {socket})\<rparr>"
  have i1: "\<forall>ticker. loops_of ?st1 ticker =
          (case priceUpdateIntervals ?st1 ticker of None \<Rightarrow> [] | Some h \<Rightarrow> [(h, ticker)])"
    and i2: "\<forall>(h, s)\<in>set (timers ?st1). h < next_handle ?st1"
    and i3: "distinct (map fst (timers ?st1))"
    and i4: "\<forall>t. (rooms st t = {}) = (priceUpdateIntervals st t = None)"
    using assms by (simp_all add: registry_invariant_def)
  show ?thesis
  proof (cases "rooms st ?u - {socket} = {}")
    case True
    note sp = stopPriceUpdates_invariant [OF i1 i2 i3, of ?u]
    have "on_unsubscribe socket ticker st = stopPriceUpdates ?u ?st1"
      using False True by (simp add: on_unsubscribe_def Let_def)
    moreover have "registry_invariant (stopPriceUpdates ?u ?st1)"
      unfolding registry_invariant_def
    proof (intro conjI)
      show "\<forall>t. loops_of (stopPriceUpdates ?u ?st1) t =
          (case priceUpdateIntervals (stopPriceUpdates ?u ?st1) t of
             None \<Rightarrow> [] | Some h \<Rightarrow> [(h, t)])"
        by (rule sp(1))
      show "\<forall>(h, s)\<in>set (timers (stopPriceUpdates ?u ?st1)). h < next_handle (stopPriceUpdates ?u ?st1)"
        by (rule sp(2))
      show "distinct (map fst (timers (stopPriceUpdates ?u ?st1)))"
        by (rule sp(3))
      show "\<forall>t. (rooms (stopPriceUpdates ?u ?st1) t = {}) =
                (priceUpdateIntervals (stopPriceUpdates ?u ?st1) t = None)"
        unfolding sp(4) sp(5) using i4 True by auto
    qed
    ultimately show ?thesis by simp
  next
    case nonempty: False
    then have "rooms st ?u \<noteq> {}" by auto
    then have "priceUpdateIntervals st ?u \<noteq> None" using i4 by simp
    have "on_unsubscribe socket ticker st = ?st1"
      using False nonempty by (simp add: on_unsubscribe_def Let_def)
    moreover have "registry_invariant ?st1"
      unfolding registry_invariant_def
      using i1 i2 i3 i4 nonempty \<open>priceUpdateIntervals st ?u \<noteq> None\<close> by simp
    ultimately show ?thesis by simp
  qed
qed

lemma run_invariant:
  "registry_invariant st \<Longrightarrow> \<not> list_ex is_disconnect es \<Longrightarrow> registry_invariant (run es st)"
proof (induction es arbitrary: st)
  case Nil
  then show ?case by simp
next
  case (Cons e es)
  then have "registry_invariant (handle e st)"
    by (cases e) (simp_all add: on_subscribe_invariant on_unsubscribe_invariant)
  with Cons show ?case by simp
qed

lemma loops_without_disconnect:
  assumes "\<not> list_ex is_disconnect es"
  shows "length (loops_of (run es initial_server) ticker) =
           (if rooms (run es initial_server) ticker = {} then 0 else 1)"
proof -
  have "registry_invariant (run es initial_server)"
    using registry_invariant_initial assms by (rule run_invariant)
  then show ?thesis
    by (auto simp: registry_invariant_def split: option.splits)
qed

text \<open>
  Claim C8 at a failing input. A viewer subscribes to AAPL and then disconnects:
  socket.io empties the room, the \<^verbatim>\<open>disconnect\<close> handler only logs, and the interval
  started by the subscription keeps running, a broadcast loop for a symbol with no
  viewer. (After sequences of subscribe and unsubscribe alone every symbol has one loop
  when its room has a member and none otherwise: \<open>loops_without_disconnect\<close>.)
\<close>

theorem disconnect_leaves_loop_running:
  "rooms (run [Subscribe 1 ''AAPL'', Disconnect 1] initial_server) ''AAPL'' = {}
   \<and> loops_of (run [Subscribe 1 ''AAPL'', Disconnect 1] initial_server) ''AAPL'' = [(0, ''AAPL'')]"
  by (simp add: on_subscribe_def on_disconnect_def startPriceUpdates_def initial_server_def
        loops_of_def toUpperCase_def upper_char_def Let_def)


section \<open>Order and size of what the services return\<close>

lemma getCandles_rows_timestamps:
  "getCandles_rows r i ts = Inr data \<Longrightarrow> map timestamp data = map (\<lambda>x. Some (x * 1000)) ts"
  by (induction ts arbitrary: i data) (auto split: sum.splits if_splits)

lemma getCandles_timestamps:
  "FinnhubService_getCandles apiKey response = []
   \<or> (\<exists>r ts. response = Inr (Some r) \<and> fc_t r = Some ts
         \<and> map timestamp (FinnhubService_getCandles apiKey response) = map (\<lambda>x. Some (x * 1000)) ts)"
  by (auto simp: FinnhubService_getCandles_def getCandles_rows_timestamps
           split: sum.splits option.splits)

lemma getDailyTimeSeries_ascending:
  assumes "time_series r = Some entries" and "distinct (map fst entries)"
    and "AlphaVantageService_getDailyTimeSeries (Inr r) = Inr data"
  shows "sorted_wrt (<) (map date data)"
proof -
  have d: "data = sort_key date (map daily_candle entries)"
    using assms(1,3) by (simp add: AlphaVantageService_getDailyTimeSeries_def split: if_splits)
  have keys: "map date (map daily_candle entries) = map fst entries"
    by (simp add: daily_candle_def split_beta)
  have "mset (map date data) = mset (map date (map daily_candle entries))"
    unfolding d by (simp del: map_map)
  then have "distinct (map date data) = distinct (map fst entries)"
    unfolding keys by (rule mset_eq_imp_distinct_iff)
  moreover have "sorted (map date data)"
    unfolding d by (rule sorted_sort_key)
  ultimately show ?thesis
    using assms(2) by (simp add: strict_sorted_iff)
qed

text \<open>
  Claim C5, as amended. \<^verbatim>\<open>AlphaVantageService.getDailyTimeSeries\<close> returns its candles
  in strictly ascending order of date (the dates are the keys of one JSON object, hence
  distinct, and the list is sorted). \<^verbatim>\<open>FinnhubService.getCandles\<close> neither sorts nor
  deduplicates: when it returns candles at all, their timestamps are the upstream
  array \<^verbatim>\<open>t\<close> times 1000, in upstream order, so its output is ascending and free of
  duplicates exactly when upstream's array is.
\<close>

theorem adapter_candle_order:
  "(time_series r = Some entries \<and> distinct (map fst entries)
      \<and> AlphaVantageService_getDailyTimeSeries (Inr r) = Inr data
     \<longrightarrow> sorted_wrt (<) (map date data))
   \<and> (FinnhubService_getCandles apiKey response = []
       \<or> (\<exists>fr ts. response = Inr (Some fr) \<and> fc_t fr = Some ts
             \<and> map timestamp (FinnhubService_getCandles apiKey response)
                 = map (\<lambda>x. Some (x * 1000)) ts))"
  using getDailyTimeSeries_ascending [of r entries data] getCandles_timestamps [of apiKey response]
  by blast

theorem adapter_candle_order_witness:
  "map date (projr (AlphaVantageService_getDailyTimeSeries (Inr daily_response))) = [20755, 20758]
   \<and> sorted_wrt (<) (map date (projr (AlphaVantageService_getDailyTimeSeries (Inr daily_response))))
   \<and> map timestamp (FinnhubService_getCandles ''key'' (Inr (Some unordered_candles)))
       = map (\<lambda>x. Some (x * 1000)) [1793491200, 1793404800, 1793404800]"
proof -
  have ts: "time_series daily_response =
      Some [(20758, \<lparr>av_open = 150, av_high = 152, av_low = 149, av_close = 151, av_volume = 2000\<rparr>),
            (20755, \<lparr>av_open = 148, av_high = 149, av_low = 147, av_close = 148, av_volume = 1000\<rparr>)]"
    by (simp add: daily_response_def)
  have ok: "AlphaVantageService_getDailyTimeSeries (Inr daily_response) =
      Inr (projr (AlphaVantageService_getDailyTimeSeries (Inr daily_response)))"
    by (simp add: AlphaVantageService_getDailyTimeSeries_def daily_response_def)
  have dates: "map date (projr (AlphaVantageService_getDailyTimeSeries (Inr daily_response)))
                 = [20755, 20758]"
    by (simp add: AlphaVantageService_getDailyTimeSeries_def daily_response_def daily_candle_def)
  have ne: "FinnhubService_getCandles ''key'' (Inr (Some unordered_candles)) \<noteq> []"
    by code_simp
  have t: "fc_t unordered_candles = Some [1793491200, 1793404800, 1793404800]"
    by (simp add: unordered_candles_def)
  show ?thesis
    using adapter_candle_order [of daily_response _ _ "''key''" "Inr (Some unordered_candles)", OF]
          ts ok dates ne t
    by auto
qed

theorem getCandles_unordered_counterexample:
  "map timestamp (FinnhubService_getCandles ''key'' (Inr (Some unordered_candles)))
     = [Some 1793491200000, Some 1793404800000, Some 1793404800000]"
  by code_simp





end
